theory Spec2Isabelle
  imports Main
begin

section \<open>Documents and collections\<close>

text \<open>
  The server in \<^verbatim>\<open>src/server/api/index.js\<close> keeps three MongoDB collections behind the
  Mongoose models \<^verbatim>\<open>User\<close>, \<^verbatim>\<open>Blog\<close> and \<^verbatim>\<open>Notification\<close>. A collection is a list of
  documents in insertion order; \<^verbatim>\<open>findOne\<close>-style operations act on the first document
  that matches the filter. Counters are JavaScript numbers changed by \<^verbatim>\<open>$inc\<close> with
  \<open>+1\<close>, \<open>0\<close> or \<open>-1\<close>, so they are integers and may become negative.
  Strings are \<open>char list\<close>, a character being a code point below 256; an
  \<^verbatim>\<open>ObjectId\<close> is a natural number. Storage calls are taken to complete, and
  each handler is run to the end of its promise chain; \<^verbatim>\<open>req.user\<close> is the identity
  that the \<^verbatim>\<open>verifyJWT\<close> middleware resolved.
\<close>

text \<open>
  Modelled from the spec: the schema files \<^verbatim>\<open>Schema/User.js\<close>, \<^verbatim>\<open>Schema/Blog.js\<close> and
  \<^verbatim>\<open>Schema/Notification.js\<close> are not among the sources. The records below hold the fields
  that the route handlers read and write, typed as in the data model of the spec
  (sections 3 and 6); a new blog starts with both activity counters at \<open>0\<close>;
  \<^verbatim>\<open>blog_id\<close> is unique, so saving a blog whose \<^verbatim>\<open>blog_id\<close> is taken fails, and a
  save meets no other condition of the schema (a draft may be saved with any of its
  fields empty); the notification collection has no uniqueness constraint.
\<close>

type_synonym oid = nat

record blog_activity =
  total_likes :: int
  total_reads :: int

datatype block = Block string

record blog_content =
  blocks :: "block list"

record blog =
  b_oid :: oid
  blog_id :: string
  title :: string
  description :: string
  banner :: string
  content :: blog_content
  tags :: "string list"
  author :: oid
  activity :: blog_activity
  draft :: bool

record user_personal_info =
  fullname :: string
  username :: string
  profile_img :: string

record user_account_info =
  total_posts :: int
  total_reads_acc :: int

record user =
  u_oid :: oid
  personal_info :: user_personal_info
  account_info :: user_account_info
  blogs :: "oid list"

record notification =
  n_oid :: oid
  n_type :: string
  notification_for :: oid
  n_blog :: oid
  n_user :: oid

record db =
  Blog :: "blog list"
  User :: "user list"
  Notification :: "notification list"

text \<open>
  What the handlers take from outside: the string returned by \<^verbatim>\<open>nanoid()\<close> and the
  \<^verbatim>\<open>_id\<close> that the store gives to a document created by the request.
\<close>

record env =
  nanoid :: string
  new_oid :: oid

section \<open>Store operations\<close>

text \<open>
  \<^verbatim>\<open>Model.findOneAndUpdate(filter, update)\<close> is called without options everywhere in the
  source, so it resolves to the matching document as it was before the update (or
  \<^verbatim>\<open>null\<close>), and changes the first match only.
\<close>

fun updateFirst :: "('a \<Rightarrow> bool) \<Rightarrow> ('a \<Rightarrow> 'a) \<Rightarrow> 'a list \<Rightarrow> 'a list" where
  "updateFirst p f [] = []"
| "updateFirst p f (x # xs) = (if p x then f x # xs else x # updateFirst p f xs)"

fun deleteFirst :: "('a \<Rightarrow> bool) \<Rightarrow> 'a list \<Rightarrow> 'a list" where
  "deleteFirst p [] = []"
| "deleteFirst p (x # xs) = (if p x then xs else x # deleteFirst p xs)"

definition findOneAndUpdate ::
  "('a \<Rightarrow> bool) \<Rightarrow> ('a \<Rightarrow> 'a) \<Rightarrow> 'a list \<Rightarrow> 'a option \<times> 'a list" where
  "findOneAndUpdate p f xs = (find p xs, updateFirst p f xs)"

definition findOneAndDelete :: "('a \<Rightarrow> bool) \<Rightarrow> 'a list \<Rightarrow> 'a option \<times> 'a list" where
  "findOneAndDelete p xs = (find p xs, deleteFirst p xs)"

definition inc_total_reads :: "int \<Rightarrow> blog \<Rightarrow> blog" where
  "inc_total_reads d b =
     b\<lparr>activity := (activity b)\<lparr>total_reads := total_reads (activity b) + d\<rparr>\<rparr>"

definition inc_total_likes :: "int \<Rightarrow> blog \<Rightarrow> blog" where
  "inc_total_likes d b =
     b\<lparr>activity := (activity b)\<lparr>total_likes := total_likes (activity b) + d\<rparr>\<rparr>"

definition inc_account_reads :: "int \<Rightarrow> user \<Rightarrow> user" where
  "inc_account_reads d u =
     u\<lparr>account_info := (account_info u)\<lparr>total_reads_acc := total_reads_acc (account_info u) + d\<rparr>\<rparr>"

definition inc_posts_push_blog :: "int \<Rightarrow> oid \<Rightarrow> user \<Rightarrow> user" where
  "inc_posts_push_blog d i u =
     u\<lparr>account_info := (account_info u)\<lparr>total_posts := total_posts (account_info u) + d\<rparr>,
       blogs := blogs u @ [i]\<rparr>"

section \<open>Requests and responses\<close>

text \<open>
  Request bodies carry the fields of the contract (spec, section 6) with their JSON
  types; \<^verbatim>\<open>draft\<close>, \<^verbatim>\<open>blogId\<close>, \<^verbatim>\<open>mode\<close> and \<^verbatim>\<open>isLikedByUser\<close> may be left out
  (\<open>None\<close> is JavaScript's \<^verbatim>\<open>undefined\<close>).
\<close>

record create_body =
  req_title :: string
  req_banner :: string
  req_content :: blog_content
  req_tags :: "string list"
  req_description :: string
  req_draft :: "bool option"
  req_blogId :: "string option"

record get_body =
  get_blogId :: string
  get_draft :: "bool option"
  get_mode :: "string option"

record like_body =
  like_id :: oid
  isLikedByUser :: "bool option"

datatype js_error = TypeError | DuplicateKey

record blog_view =
  view_blog :: blog
  view_author :: user_personal_info

datatype body =
    Error string
  | ErrorMessage js_error
  | ErrorJson js_error
  | Id string
  | BlogDoc blog_view
  | LikedByUser bool
  | Exists "oid option"

text \<open>
  \<open>Resp status body\<close> is \<^verbatim>\<open>res.status(status).json(body)\<close>. \<open>Unhandled e\<close> is an
  exception thrown inside a promise callback whose chain has no \<^verbatim>\<open>.catch\<close>: the
  rejection is unhandled and no response is sent.
\<close>

datatype response = Resp nat body | Unhandled js_error

definition truthy :: "bool option \<Rightarrow> bool" where
  "truthy d = (d = Some True)"

definition truthy_str :: "string option \<Rightarrow> bool" where
  "truthy_str s = (case s of None \<Rightarrow> False | Some t \<Rightarrow> t \<noteq> [])"

section \<open>POST /create-blog\<close>

text \<open>Character classes by character code: \<^verbatim>\<open>[a-zA-Z0-9]\<close>, the white space of
  \<^verbatim>\<open>\s\<close> below code 256, and the letters below code 256 that
  \<^verbatim>\<open>String.prototype.toLowerCase\<close> changes: \<open>A\<close> to \<open>Z\<close> and the codes \<open>0xC0\<close> to
  \<open>0xDE\<close> without the multiplication sign \<open>0xD7\<close>, each moved up by 32.\<close>

definition code :: "char \<Rightarrow> nat" where
  "code c = of_char c"

definition is_upper :: "char \<Rightarrow> bool" where
  "is_upper c = (code (CHR ''A'') \<le> code c \<and> code c \<le> code (CHR ''Z''))"

definition has_lower :: "char \<Rightarrow> bool" where
  "has_lower c = (is_upper c \<or> (0xC0 \<le> code c \<and> code c \<le> 0xDE \<and> code c \<noteq> 0xD7))"

definition is_alnum :: "char \<Rightarrow> bool" where
  "is_alnum c = ((code (CHR ''a'') \<le> code c \<and> code c \<le> code (CHR ''z'')) \<or> is_upper c
                 \<or> (code (CHR ''0'') \<le> code c \<and> code c \<le> code (CHR ''9'')))"

definition is_space :: "char \<Rightarrow> bool" where
  "is_space c = (c \<in> set [CHR '' '', CHR 0x09, CHR 0x0A, CHR 0x0B, CHR 0x0C, CHR 0x0D, CHR 0xA0])"

text \<open>\<^verbatim>\<open>.replace(/\s+/g, "-")\<close>: every maximal run of white space becomes one hyphen.
  The flag says whether the previous character was white space.\<close>

fun replace_runs :: "bool \<Rightarrow> string \<Rightarrow> string" where
  "replace_runs in_run [] = []"
| "replace_runs in_run (c # cs) =
     (if is_space c then (if in_run then replace_runs True cs else CHR ''-'' # replace_runs True cs)
      else c # replace_runs False cs)"

definition trim :: "string \<Rightarrow> string" where
  "trim s = rev (dropWhile is_space (rev (dropWhile is_space s)))"

definition slug :: "string \<Rightarrow> string" where
  "slug t = trim (replace_runs False (map (\<lambda>c. if is_alnum c then c else CHR '' '') t))"

definition toLowerCase :: "string \<Rightarrow> string" where
  "toLowerCase s =
     map (\<lambda>c. if has_lower c then char_of (code c + 32) else c) s"

text \<open>The four checks inside \<^verbatim>\<open>if (draft) { ... }\<close>, in the order of the source; the
  result is the message of the first check that fails.\<close>

definition draft_checks :: "create_body \<Rightarrow> string option" where
  "draft_checks rq =
    (if req_description rq = [] then Some ''you must provide blog description.''
     else if req_banner rq = [] then Some ''you must provide blog banner.''
     else if blocks (req_content rq) = [] then Some ''you must provide blog content''
     else if req_tags rq = [] then Some ''you must provide tags''
     else None)"

text \<open>The branch \<^verbatim>\<open>if (blogId)\<close>: the first blog with this \<^verbatim>\<open>blog_id\<close> is overwritten;
  the response is sent whether or not a blog matched.\<close>

definition update_existing :: "db \<Rightarrow> create_body \<Rightarrow> string list \<Rightarrow> string \<Rightarrow> db \<times> response" where
  "update_existing d rq tgs blogId =
    (d\<lparr>Blog := updateFirst (\<lambda>b. blog_id b = blogId)
          (\<lambda>b. b\<lparr>title := req_title rq, description := req_description rq,
                  banner := req_banner rq, content := req_content rq, tags := tgs,
                  draft := truthy (req_draft rq)\<rparr>) (Blog d)\<rparr>,
     Resp 200 (Id blogId))"

text \<open>The \<^verbatim>\<open>else\<close> branch: \<^verbatim>\<open>blog.save()\<close>, then the author's \<^verbatim>\<open>total_posts\<close> and
  \<^verbatim>\<open>blogs\<close> are updated; the response does not depend on whether the author was
  found.\<close>

definition save_new :: "db \<Rightarrow> oid \<Rightarrow> create_body \<Rightarrow> env \<Rightarrow> string list \<Rightarrow> string \<Rightarrow> db \<times> response" where
  "save_new d authorId rq e tgs bid =
    (let blog = \<lparr>b_oid = new_oid e, blog_id = bid, title = req_title rq,
                  description = req_description rq, banner = req_banner rq,
                  content = req_content rq, tags = tgs, author = authorId,
                  activity = \<lparr>total_likes = 0, total_reads = 0\<rparr>,
                  draft = truthy (req_draft rq)\<rparr>
     in if find (\<lambda>b. blog_id b = bid) (Blog d) \<noteq> None
        then (d, Resp 500 (ErrorMessage DuplicateKey))
        else
          let increasePostCount = (if truthy (req_draft rq) then 0 else 1) in
          (d\<lparr>Blog := Blog d @ [blog],
             User := updateFirst (\<lambda>u. u_oid u = authorId)
                       (inc_posts_push_blog increasePostCount (b_oid blog)) (User d)\<rparr>,
           Resp 200 (Id bid)))"

definition create_blog :: "db \<Rightarrow> oid \<Rightarrow> create_body \<Rightarrow> env \<Rightarrow> db \<times> response" where
  "create_blog d authorId rq e =
    (if req_title rq = [] then (d, Resp 403 (Error ''you must provide blog title.''))
     else
       case (if truthy (req_draft rq) then draft_checks rq else None) of
         Some msg \<Rightarrow> (d, Resp 403 (Error msg))
       | None \<Rightarrow>
           let tgs = map toLowerCase (req_tags rq) in
           if truthy_str (req_blogId rq)
           then update_existing d rq tgs (case req_blogId rq of Some i \<Rightarrow> i | None \<Rightarrow> [])
           else save_new d authorId rq e tgs (slug (req_title rq) @ nanoid e))"

section \<open>POST /get-blog\<close>

text \<open>
  The promise chain of the handler: the blog is found and its counter changed, the
  author is populated, the author's counter is changed through the user name, and the
  draft check decides the response. A blog or an author that does not resolve makes
  \<^verbatim>\<open>blog.author.personal_info\<close> throw inside \<^verbatim>\<open>.then\<close>, which the final \<^verbatim>\<open>.catch\<close>
  turns into \<^verbatim>\<open>res.status(500).json(err)\<close>.
\<close>

definition get_blog :: "db \<Rightarrow> get_body \<Rightarrow> db \<times> response" where
  "get_blog d rq =
    (let incrementalValue = (if get_mode rq = Some ''edit'' then 0 else 1);
         (found, bs) = findOneAndUpdate (\<lambda>b. blog_id b = get_blogId rq)
                          (inc_total_reads incrementalValue) (Blog d);
         d1 = d\<lparr>Blog := bs\<rparr>
     in case found of
          None \<Rightarrow> (d1, Resp 500 (ErrorJson TypeError))
        | Some blog \<Rightarrow>
            (case find (\<lambda>u. u_oid u = author blog) (User d1) of
               None \<Rightarrow> (d1, Resp 500 (ErrorJson TypeError))
             | Some a \<Rightarrow>
                 let d2 = d1\<lparr>User := updateFirst
                            (\<lambda>u. username (personal_info u) = username (personal_info a))
                            (inc_account_reads incrementalValue) (User d1)\<rparr>
                 in if draft blog \<and> \<not> truthy (get_draft rq)
                    then (d2, Resp 500 (Error ''you can not access draft blogs.''))
                    else (d2, Resp 200 (BlogDoc \<lparr>view_blog = blog, view_author = personal_info a\<rparr>))))"

section \<open>POST /like-blog and POST /isliked-by-user\<close>

definition is_like_of :: "oid \<Rightarrow> oid \<Rightarrow> notification \<Rightarrow> bool" where
  "is_like_of u b n = (n_user n = u \<and> n_blog n = b \<and> n_type n = ''like'')"

text \<open>
  \<^verbatim>\<open>req.user\<close> is the identity that \<^verbatim>\<open>verifyJWT\<close> resolved. The counter is changed
  first; in the branch that creates the notification, \<^verbatim>\<open>blog.author\<close> is read from the
  result of the update, and neither that \<^verbatim>\<open>.then\<close> nor \<^verbatim>\<open>like.save()\<close> has a
  \<^verbatim>\<open>.catch\<close>.
\<close>

definition like_blog :: "db \<Rightarrow> oid \<Rightarrow> like_body \<Rightarrow> env \<Rightarrow> db \<times> response" where
  "like_blog d req_user rq e =
    (let incrementalValue = (if \<not> truthy (isLikedByUser rq) then 1 else - 1);
         (found, bs) = findOneAndUpdate (\<lambda>b. b_oid b = like_id rq)
                          (inc_total_likes incrementalValue) (Blog d);
         d1 = d\<lparr>Blog := bs\<rparr>
     in if isLikedByUser rq = Some True then
          (case found of
             None \<Rightarrow> (d1, Unhandled TypeError)
           | Some blog \<Rightarrow>
               (d1\<lparr>Notification := Notification d1 @
                     [\<lparr>n_oid = new_oid e, n_type = ''like'', notification_for = author blog,
                       n_blog = like_id rq, n_user = req_user\<rparr>]\<rparr>,
                Resp 200 (LikedByUser True)))
        else
          (let (data, ns) = findOneAndDelete (is_like_of req_user (like_id rq)) (Notification d1)
           in (d1\<lparr>Notification := ns\<rparr>, Resp 200 (LikedByUser False))))"

definition isliked_by_user :: "db \<Rightarrow> oid \<Rightarrow> oid \<Rightarrow> response" where
  "isliked_by_user d user_id i =
     Resp 200 (Exists (map_option n_oid (find (is_like_of user_id i) (Notification d))))"

section \<open>Observations of a state\<close>

text \<open>What a caller can observe of the counters and of the like ledger; these are the
  quantities that the properties below speak about.\<close>

definition blog_reads :: "db \<Rightarrow> string \<Rightarrow> int option" where
  "blog_reads d bid = map_option (\<lambda>b. total_reads (activity b)) (find (\<lambda>b. blog_id b = bid) (Blog d))"


definition blog_likes :: "db \<Rightarrow> oid \<Rightarrow> int option" where
  "blog_likes d i = map_option (\<lambda>b. total_likes (activity b)) (find (\<lambda>b. b_oid b = i) (Blog d))"

definition user_total_posts :: "db \<Rightarrow> oid \<Rightarrow> int option" where
  "user_total_posts d i =
     map_option (\<lambda>u. total_posts (account_info u)) (find (\<lambda>u. u_oid u = i) (User d))"

definition published_count :: "db \<Rightarrow> oid \<Rightarrow> int" where
  "published_count d i = int (length (filter (\<lambda>b. author b = i \<and> \<not> draft b) (Blog d)))"

text \<open>The like ledger: the notifications of type \<^verbatim>\<open>"like"\<close>, keyed by user and blog.\<close>

definition like_key :: "notification \<Rightarrow> oid \<times> oid" where
  "like_key n = (n_user n, n_blog n)"

definition likes :: "notification list \<Rightarrow> notification list" where
  "likes ns = filter (\<lambda>n. n_type n = ''like'') ns"

definition at_most_one_like :: "db \<Rightarrow> bool" where
  "at_most_one_like d = distinct (map like_key (likes (Notification d)))"

definition like_count :: "db \<Rightarrow> oid \<Rightarrow> oid \<Rightarrow> nat" where
  "like_count d u b = length (filter (is_like_of u b) (Notification d))"

text \<open>The two bodies of \<^verbatim>\<open>POST /like-blog\<close> and a run of like requests, one after the
  other, by a list of users on one blog.\<close>

definition like_rq :: "oid \<Rightarrow> like_body" where
  "like_rq b = \<lparr>like_id = b, isLikedByUser = Some True\<rparr>"

definition unlike_rq :: "oid \<Rightarrow> like_body" where
  "unlike_rq b = \<lparr>like_id = b, isLikedByUser = Some False\<rparr>"

fun like_all :: "db \<Rightarrow> oid \<Rightarrow> (oid \<times> env) list \<Rightarrow> db" where
  "like_all d b [] = d"
| "like_all d b ((u, e) # us) = like_all (fst (like_blog d u (like_rq b) e)) b us"

section \<open>A small state to run the handlers on\<close>

text \<open>Two users and two blogs of the first user, one published and one a draft; no
  notifications.\<close>

definition ann :: user where
  "ann = \<lparr>u_oid = 1,
           personal_info = \<lparr>fullname = ''Ann Lee'', username = ''ann'', profile_img = ''a.png''\<rparr>,
           account_info = \<lparr>total_posts = 1, total_reads_acc = 4\<rparr>, blogs = [10, 11]\<rparr>"

definition bob :: user where
  "bob = \<lparr>u_oid = 2,
           personal_info = \<lparr>fullname = ''Bob Ray'', username = ''bob'', profile_img = ''b.png''\<rparr>,
           account_info = \<lparr>total_posts = 0, total_reads_acc = 0\<rparr>, blogs = []\<rparr>"

definition post :: blog where
  "post = \<lparr>b_oid = 10, blog_id = ''First-postx1'', title = ''First post'',
            description = ''d'', banner = ''b.png'', content = \<lparr>blocks = [Block ''p'']\<rparr>,
            tags = [''x''], author = 1, activity = \<lparr>total_likes = 0, total_reads = 4\<rparr>,
            draft = False\<rparr>"

definition sketch :: blog where
  "sketch = \<lparr>b_oid = 11, blog_id = ''Sketchx2'', title = ''Sketch'',
            description = ''d'', banner = ''b.png'', content = \<lparr>blocks = [Block ''p'']\<rparr>,
            tags = [''x''], author = 1, activity = \<lparr>total_likes = 0, total_reads = 0\<rparr>,
            draft = True\<rparr>"




definition db_ex :: db where
  "db_ex = \<lparr>Blog = [post, sketch], User = [ann, bob], Notification = []\<rparr>"

definition e20 :: env where
  "e20 = \<lparr>nanoid = ''k9'', new_oid = 20\<rparr>"

definition e21 :: env where
  "e21 = \<lparr>nanoid = ''m4'', new_oid = 21\<rparr>"

definition unfinished :: create_body where
  "unfinished = \<lparr>req_title = ''T'', req_banner = [], req_content = \<lparr>blocks = []\<rparr>,
                  req_tags = [], req_description = [], req_draft = Some False, req_blogId = None\<rparr>"

definition finished :: create_body where
  "finished = \<lparr>req_title = ''Notes'', req_banner = ''n.png'', req_content = \<lparr>blocks = [Block ''p'']\<rparr>,
                req_tags = [''Day''], req_description = ''d'', req_draft = Some True, req_blogId = None\<rparr>"

section \<open>Facts about the store operations\<close>

lemmas ex_defs = db_ex_def post_def sketch_def ann_def bob_def


lemmas run_defs = create_blog_def save_new_def update_existing_def draft_checks_def truthy_def
  truthy_str_def slug_def trim_def is_alnum_def is_upper_def has_lower_def is_space_def code_def toLowerCase_def
  inc_posts_push_blog_def like_blog_def findOneAndUpdate_def findOneAndDelete_def
  inc_total_likes_def is_like_of_def get_blog_def like_rq_def unlike_rq_def e20_def e21_def
  unfinished_def finished_def blog_likes_def user_total_posts_def published_count_def
  like_count_def


lemma find_updateFirst_same:
  "find p xs = Some a \<Longrightarrow> find q xs = Some a \<Longrightarrow> (\<And>x. q (f x) = q x)
   \<Longrightarrow> find q (updateFirst p f xs) = Some (f a)"
proof (induction xs)
  case Nil
  then show ?case by simp
next
  case (Cons x xs)
  show ?case
  proof (cases "p x")
    case True
    with Cons.prems(1) have ax: "a = x" by simp
    with Cons.prems(2) have "q x" by (auto simp: find_Some_iff split: if_splits)
    with True ax Cons.prems(3) show ?thesis by simp
  next
    case False
    with Cons.prems(1) have pa: "find p xs = Some a" by simp
    then have "p a" by (auto simp: find_Some_iff)
    with False have "a \<noteq> x" by auto
    with Cons.prems(2) have nq: "\<not> q x" and qa: "find q xs = Some a"
      by (auto split: if_splits)
    from Cons.IH[OF pa qa Cons.prems(3)] False nq Cons.prems(3) show ?thesis by simp
  qed
qed

lemma find_updateFirst_keep:
  "(\<And>x. p (f x) = p x) \<Longrightarrow> find p (updateFirst p f xs) = map_option f (find p xs)"
  by (induction xs) auto

lemma find_append_new: "find p xs = None \<Longrightarrow> p n \<Longrightarrow> find p (xs @ [n]) = Some n"
  by (induction xs) (auto split: if_splits)

lemma deleteFirst_append_new: "find p xs = None \<Longrightarrow> p n \<Longrightarrow> deleteFirst p (xs @ [n]) = xs"
  by (induction xs) (auto split: if_splits)

lemma set_deleteFirst: "set (deleteFirst p xs) \<subseteq> set xs"
  by (induction xs) auto

lemma distinct_key_deleteFirst:
  "distinct (map k (filter l xs)) \<Longrightarrow> distinct (map k (filter l (deleteFirst p xs)))"
proof (induction xs)
  case Nil
  then show ?case by simp
next
  case (Cons x xs)
  have "k x \<notin> k ` {y \<in> set xs. l y} \<Longrightarrow> k x \<notin> k ` {y \<in> set (deleteFirst p xs). l y}"
    using set_deleteFirst[of p xs] by auto
  with Cons show ?case by (auto split: if_splits)
qed



section \<open>Publication: what \<^verbatim>\<open>POST /create-blog\<close> checks\<close>

text \<open>The handler answers 403 exactly for an empty title, or for a request with a true
  \<^verbatim>\<open>draft\<close> flag that fails one of the four checks; a request that is to be published
  passes with any description, banner, content and tags.\<close>

lemma create_blog_rejects_iff:
  "snd (create_blog d a rq e) = Resp 403 (Error m) \<longleftrightarrow>
     (req_title rq = [] \<and> m = ''you must provide blog title.'') \<or>
     (req_title rq \<noteq> [] \<and> truthy (req_draft rq) \<and> draft_checks rq = Some m)"
  by (auto simp: create_blog_def save_new_def update_existing_def Let_def split: option.splits)

text \<open>
  Claim C1. A create-blog request whose target state is Published (draft flag false or
  left out) succeeds only if title, description, banner, content blocks and tags are
  non-empty, and a save as Draft needs a non-empty title only, so that no blog saved
  with \<open>draft = False\<close> has an empty required field.

  The handler does the opposite: the four checks sit under \<^verbatim>\<open>if (draft)\<close>. The
  theorem runs it on a request with title \<open>T\<close> and every other field empty. With
  \<^verbatim>\<open>draft\<close> false the blog is stored as published with its empty fields and the
  answer is 200 (the same answer when \<^verbatim>\<open>draft\<close> is left out); with \<^verbatim>\<open>draft\<close>
  true the same request is refused with 403 for its description.
\<close>

theorem create_blog_publishes_incomplete:
  "create_blog db_ex 2 unfinished e20 =
     (db_ex\<lparr>Blog := Blog db_ex @
          [\<lparr>b_oid = 20, blog_id = ''Tk9'', title = ''T'', description = [], banner = [],
            content = \<lparr>blocks = []\<rparr>, tags = [], author = 2,
            activity = \<lparr>total_likes = 0, total_reads = 0\<rparr>, draft = False\<rparr>],
        User := [ann, bob\<lparr>account_info := \<lparr>total_posts = 1, total_reads_acc = 0\<rparr>, blogs := [20]\<rparr>]\<rparr>,
      Resp 200 (Id ''Tk9'')) \<and>
   snd (create_blog db_ex 2 (unfinished\<lparr>req_draft := None\<rparr>) e20) = Resp 200 (Id ''Tk9'') \<and>
   create_blog db_ex 2 (unfinished\<lparr>req_draft := Some True\<rparr>) e20 =
     (db_ex, Resp 403 (Error ''you must provide blog description.''))"
  by (simp add: run_defs ex_defs)

section \<open>Likes: \<^verbatim>\<open>POST /like-blog\<close> and \<^verbatim>\<open>POST /isliked-by-user\<close>\<close>

lemma like_blog_like_db:
  assumes "find (\<lambda>x. b_oid x = b) (Blog d) = Some x"
  shows "fst (like_blog d u (like_rq b) e) =
           d\<lparr>Blog := updateFirst (\<lambda>x. b_oid x = b) (inc_total_likes (- 1)) (Blog d),
             Notification := Notification d @
               [\<lparr>n_oid = new_oid e, n_type = ''like'', notification_for = author x,
                 n_blog = b, n_user = u\<rparr>]\<rparr>"
  using assms by (simp add: like_blog_def like_rq_def findOneAndUpdate_def truthy_def Let_def)

lemma like_blog_unlike_db:
  "fst (like_blog d u (unlike_rq b) e) =
           d\<lparr>Blog := updateFirst (\<lambda>x. b_oid x = b) (inc_total_likes 1) (Blog d),
             Notification := deleteFirst (is_like_of u b) (Notification d)\<rparr>"
  by (simp add: like_blog_def unlike_rq_def findOneAndUpdate_def findOneAndDelete_def truthy_def
        Let_def)

lemma like_blog_unresolved_db:
  "find (\<lambda>x. b_oid x = like_id rq) (Blog d) = None \<Longrightarrow> isLikedByUser rq = Some True
   \<Longrightarrow> Notification (fst (like_blog d u rq e)) = Notification d"
  by (simp add: like_blog_def findOneAndUpdate_def Let_def)

lemma like_blog_unresolved:
  "find (\<lambda>x. b_oid x = like_id rq) (Blog d) = None \<Longrightarrow> isLikedByUser rq = Some True
   \<Longrightarrow> snd (like_blog d u rq e) = Unhandled TypeError"
  by (simp add: like_blog_def findOneAndUpdate_def Let_def)

lemma like_blog_likes:
  assumes "find (\<lambda>x. b_oid x = like_id rq) (Blog d) = Some x"
  shows "blog_likes (fst (like_blog d u rq e)) (like_id rq) =
           Some (total_likes (activity x) + (if truthy (isLikedByUser rq) then - 1 else 1))"
proof -
  have "Blog (fst (like_blog d u rq e)) =
          updateFirst (\<lambda>x. b_oid x = like_id rq)
            (inc_total_likes (if truthy (isLikedByUser rq) then - 1 else 1)) (Blog d)"
    using assms
    by (simp add: like_blog_def findOneAndUpdate_def findOneAndDelete_def Let_def truthy_def)
  moreover have "find (\<lambda>x. b_oid x = like_id rq)
      (updateFirst (\<lambda>x. b_oid x = like_id rq)
            (inc_total_likes (if truthy (isLikedByUser rq) then - 1 else 1)) (Blog d))
      = Some (inc_total_likes (if truthy (isLikedByUser rq) then - 1 else 1) x)"
    using assms by (simp add: find_updateFirst_keep inc_total_likes_def)
  ultimately show ?thesis by (simp add: blog_likes_def inc_total_likes_def)
qed

lemma like_all_likes:
  "find (\<lambda>x. b_oid x = b) (Blog d) = Some x \<Longrightarrow>
   blog_likes (like_all d b us) b = Some (total_likes (activity x) - int (length us))"
proof (induction us arbitrary: d x)
  case Nil
  then show ?case by (simp add: blog_likes_def)
next
  case (Cons ue us)
  obtain u e where ue: "ue = (u, e)" by (cases ue)
  let ?d = "fst (like_blog d u (like_rq b) e)"
  from Cons.prems have "blog_likes ?d b = Some (total_likes (activity x) - 1)"
    using like_blog_likes[of "like_rq b" d x u e] by (simp add: like_rq_def truthy_def)
  then obtain y where y: "find (\<lambda>x. b_oid x = b) (Blog ?d) = Some y"
      and ly: "total_likes (activity y) = total_likes (activity x) - 1"
    by (auto simp: blog_likes_def)
  from Cons.IH[OF y] ly ue show ?case by simp
qed

text \<open>
  Claim C2. With \<^verbatim>\<open>wantLiked\<close> true a like-blog call adds 1 to the blog's
  \<^verbatim>\<open>total_likes\<close> and creates the ledger entry of type like for the user and the
  blog; with \<^verbatim>\<open>wantLiked\<close> false it subtracts 1 and removes the entry; the returned
  \<^verbatim>\<open>likedByUser\<close> is the resulting state.

  In the handler the ledger and the response follow \<^verbatim>\<open>isLikedByUser\<close>, and the
  counter follows its negation (\<^verbatim>\<open>!isLikedByUser ? 1 : -1\<close>). The theorem runs both
  requests on the published blog of the small state, whose counter is 0: the like
  leaves the counter at \<open>-1\<close> with one ledger entry and the answer true; the unlike
  leaves it at \<open>1\<close> with no entry and the answer false.
\<close>

theorem like_blog_counter_sign:
  "blog_likes db_ex 10 = Some 0 \<and>
   blog_likes (fst (like_blog db_ex 2 (like_rq 10) e20)) 10 = Some (- 1) \<and>
   like_count (fst (like_blog db_ex 2 (like_rq 10) e20)) 2 10 = 1 \<and>
   snd (like_blog db_ex 2 (like_rq 10) e20) = Resp 200 (LikedByUser True) \<and>
   blog_likes (fst (like_blog db_ex 2 (unlike_rq 10) e20)) 10 = Some 1 \<and>
   like_count (fst (like_blog db_ex 2 (unlike_rq 10) e20)) 2 10 = 0 \<and>
   snd (like_blog db_ex 2 (unlike_rq 10) e20) = Resp 200 (LikedByUser False)"
  by (simp add: run_defs ex_defs)

text \<open>
  Claim C3, as amended. The handler saves a new like notification without looking for
  an existing one, so the ledger holds at most one like entry per user and blog only
  while no like is sent for a pair that already has an entry: if the ledger has at
  most one like entry per pair, and the request either is not a like or is a like for
  a pair without an entry, then the ledger after the call has at most one like entry
  per pair.
\<close>

theorem like_ledger_at_most_one:
  assumes "at_most_one_like d"
      and "isLikedByUser rq = Some True \<Longrightarrow> find (is_like_of u (like_id rq)) (Notification d) = None"
  shows "at_most_one_like (fst (like_blog d u rq e))"
proof (cases "isLikedByUser rq = Some True")
  case True
  show ?thesis
  proof (cases "find (\<lambda>x. b_oid x = like_id rq) (Blog d)")
    case None
    with True assms(1) show ?thesis
      by (simp add: at_most_one_like_def like_blog_unresolved_db)
  next
    case (Some x)
    have rq: "rq = like_rq (like_id rq)" using True by (simp add: like_rq_def)
    from assms(2)[OF True] have "(u, like_id rq) \<notin> like_key ` set (likes (Notification d))"
      by (auto simp: find_None_iff is_like_of_def like_key_def likes_def)
    with assms(1) have "at_most_one_like (fst (like_blog d u (like_rq (like_id rq)) e))"
      unfolding like_blog_like_db[OF Some]
      by (simp add: at_most_one_like_def likes_def like_key_def)
    with rq show ?thesis by simp
  qed
next
  case False
  have "Notification (fst (like_blog d u rq e)) = deleteFirst (is_like_of u (like_id rq)) (Notification d)"
    using False
    by (simp add: like_blog_def findOneAndUpdate_def findOneAndDelete_def Let_def)
  with assms(1) show ?thesis
    by (simp add: at_most_one_like_def likes_def distinct_key_deleteFirst)
qed

text \<open>The amended invariant at work: one like by the second user on the published
  blog, starting from the empty ledger.\<close>

theorem like_ledger_at_most_one_witness:
  "at_most_one_like db_ex \<and> find (is_like_of 2 10) (Notification db_ex) = None \<and>
   at_most_one_like (fst (like_blog db_ex 2 (like_rq 10) \<lparr>nanoid = [], new_oid = 20\<rparr>)) \<and>
   like_count (fst (like_blog db_ex 2 (like_rq 10) \<lparr>nanoid = [], new_oid = 20\<rparr>)) 2 10 = 1"
  using like_ledger_at_most_one [of db_ex "like_rq 10" 2 "\<lparr>nanoid = [], new_oid = 20\<rparr>"]
  by (simp add: ex_defs at_most_one_like_def likes_def like_rq_def like_count_def like_blog_def
        findOneAndUpdate_def truthy_def is_like_of_def)

text \<open>Claim C3 as stated fails: the same like sent twice in sequence, from a ledger
  with no entry for the pair, leaves two entries for it.\<close>

theorem like_twice_counterexample:
  "like_count db_ex 2 10 = 0 \<and>
   like_count (fst (like_blog (fst (like_blog db_ex 2 (like_rq 10) \<lparr>nanoid = [], new_oid = 20\<rparr>))
       2 (like_rq 10) \<lparr>nanoid = [], new_oid = 21\<rparr>)) 2 10 = 2 \<and>
   \<not> at_most_one_like (fst (like_blog (fst (like_blog db_ex 2 (like_rq 10) \<lparr>nanoid = [], new_oid = 20\<rparr>))
       2 (like_rq 10) \<lparr>nanoid = [], new_oid = 21\<rparr>))"
  by (simp add: ex_defs at_most_one_like_def likes_def like_rq_def like_count_def like_blog_def
        findOneAndUpdate_def truthy_def is_like_of_def like_key_def inc_total_likes_def)

text \<open>
  Claim C7. From a state in which user \<open>u\<close> has no ledger entry for the blog \<open>b\<close>
  (a blog of the collection), a like followed by the is-liked query answers true (the
  query returns the \<^verbatim>\<open>_id\<close> of the entry), and an unlike after that followed by the
  query answers false (\<^verbatim>\<open>null\<close>).
\<close>

theorem like_then_unlike_isliked:
  assumes "find (is_like_of u b) (Notification d) = None"
      and "find (\<lambda>x. b_oid x = b) (Blog d) = Some x"
  shows "isliked_by_user (fst (like_blog d u (like_rq b) e)) u b = Resp 200 (Exists (Some (new_oid e))) \<and>
         isliked_by_user (fst (like_blog (fst (like_blog d u (like_rq b) e)) u (unlike_rq b) e')) u b
           = Resp 200 (Exists None)"
proof -
  let ?n = "\<lparr>n_oid = new_oid e, n_type = ''like'', notification_for = author x,
              n_blog = b, n_user = u\<rparr>"
  have n: "is_like_of u b ?n" by (simp add: is_like_of_def)
  have 1: "find (is_like_of u b) (Notification d @ [?n]) = Some ?n"
    by (rule find_append_new[OF assms(1) n])
  have 2: "deleteFirst (is_like_of u b) (Notification d @ [?n]) = Notification d"
    by (rule deleteFirst_append_new[OF assms(1) n])
  show ?thesis
    unfolding like_blog_unlike_db like_blog_like_db[OF assms(2)] isliked_by_user_def
    using 1 2 assms(1) by simp
qed

text \<open>The round trip for the second user and the published blog of the small state.\<close>

theorem like_then_unlike_isliked_witness:
  "isliked_by_user db_ex 2 10 = Resp 200 (Exists None) \<and>
   isliked_by_user (fst (like_blog db_ex 2 (like_rq 10) \<lparr>nanoid = [], new_oid = 20\<rparr>)) 2 10
     = Resp 200 (Exists (Some 20)) \<and>
   isliked_by_user (fst (like_blog (fst (like_blog db_ex 2 (like_rq 10) \<lparr>nanoid = [], new_oid = 20\<rparr>))
       2 (unlike_rq 10) \<lparr>nanoid = [], new_oid = 21\<rparr>)) 2 10 = Resp 200 (Exists None)"
  using like_then_unlike_isliked [of 2 10 db_ex post "\<lparr>nanoid = [], new_oid = 20\<rparr>"
          "\<lparr>nanoid = [], new_oid = 21\<rparr>"]
  by (simp add: ex_defs isliked_by_user_def)

text \<open>
  Claim C8. A request whose blog does not resolve ends with a structured error
  response delivered to the caller, and no error escapes uncaught.

  The theorem runs the handlers on a blog that is not in the collection. The like
  request throws on \<^verbatim>\<open>blog.author\<close> inside a \<^verbatim>\<open>.then\<close> that has no \<^verbatim>\<open>.catch\<close>:
  the rejection is unhandled and nothing is sent. The unlike request answers 200. Only
  get-blog, whose chain ends in a \<^verbatim>\<open>.catch\<close>, answers with an error (status 500).
\<close>

theorem like_blog_unresolved_unhandled:
  "find (\<lambda>x. b_oid x = 99) (Blog db_ex) = None \<and>
   like_blog db_ex 2 (like_rq 99) e20 = (db_ex, Unhandled TypeError) \<and>
   like_blog db_ex 2 (unlike_rq 99) e20 = (db_ex, Resp 200 (LikedByUser False)) \<and>
   get_blog db_ex \<lparr>get_blogId = ''nope'', get_draft = None, get_mode = None\<rparr>
     = (db_ex, Resp 500 (ErrorJson TypeError))"
  by (simp add: run_defs ex_defs)

text \<open>
  Claim C9. Like calls with \<^verbatim>\<open>wantLiked\<close> true by \<open>N\<close> distinct users on one blog
  add exactly \<open>N\<close> to its \<^verbatim>\<open>total_likes\<close>.

  Each such call subtracts 1 (the counter follows the negation of the flag), so
  already one call alone, and two
  calls by two users one after the other, take the counter from 0 to \<open>-1\<close> and to
  \<open>-2\<close>; \<open>like_all_likes\<close> above gives \<open>- N\<close> for any run of \<open>N\<close> calls.
\<close>

theorem likes_by_distinct_users_decrement:
  "blog_likes db_ex 10 = Some 0 \<and>
   blog_likes (like_all db_ex 10 [(1, e20)]) 10 = Some (- 1) \<and>
   blog_likes (like_all db_ex 10 [(1, e20), (2, e21)]) 10 = Some (- 2)"
  by (simp add: run_defs ex_defs)

section \<open>Views: \<^verbatim>\<open>POST /get-blog\<close>\<close>


lemma get_blog_db:
  assumes "find (\<lambda>b. blog_id b = get_blogId rq) (Blog d) = Some b"
      and "find (\<lambda>u. u_oid u = author b) (User d) = Some a"
  shows "fst (get_blog d rq) =
           d\<lparr>Blog := updateFirst (\<lambda>b. blog_id b = get_blogId rq)
                      (inc_total_reads (if get_mode rq = Some ''edit'' then 0 else 1)) (Blog d),
             User := updateFirst (\<lambda>u. username (personal_info u) = username (personal_info a))
                      (inc_account_reads (if get_mode rq = Some ''edit'' then 0 else 1)) (User d)\<rparr>"
  using assms by (simp add: get_blog_def findOneAndUpdate_def Let_def)





text \<open>
  Claim C5. A get-blog call with a mode other than edit, on a draft, by a caller who
  did not set the draft flag, is refused with the draft access error and returns no
  blog, and the blog's read counter has been incremented all the same. (The refusal is
  sent with status 500.)
\<close>

theorem get_blog_draft_denied:
  assumes "find (\<lambda>b. blog_id b = get_blogId rq) (Blog d) = Some b"
      and "find (\<lambda>u. u_oid u = author b) (User d) = Some a"
      and "draft b" and "\<not> truthy (get_draft rq)" and "get_mode rq \<noteq> Some ''edit''"
  shows "snd (get_blog d rq) = Resp 500 (Error ''you can not access draft blogs.'') \<and>
         blog_reads (fst (get_blog d rq)) (get_blogId rq) = Some (total_reads (activity b) + 1)"
proof -
  have R: "snd (get_blog d rq) = Resp 500 (Error ''you can not access draft blogs.'')"
    using assms by (simp add: get_blog_def findOneAndUpdate_def Let_def)
  have "find (\<lambda>b. blog_id b = get_blogId rq)
             (updateFirst (\<lambda>b. blog_id b = get_blogId rq) (inc_total_reads 1) (Blog d))
           = Some (inc_total_reads 1 b)"
    by (rule find_updateFirst_same[OF assms(1) assms(1)]) (simp add: inc_total_reads_def)
  then have "blog_reads (fst (get_blog d rq)) (get_blogId rq) = Some (total_reads (activity b) + 1)"
    unfolding get_blog_db[OF assms(1,2)] blog_reads_def
    using assms(5) by (simp add: inc_total_reads_def)
  with R show ?thesis by simp
qed

text \<open>A view of the draft of the small state without the draft flag.\<close>

theorem get_blog_draft_denied_witness:
  "snd (get_blog db_ex \<lparr>get_blogId = ''Sketchx2'', get_draft = None, get_mode = None\<rparr>)
     = Resp 500 (Error ''you can not access draft blogs.'') \<and>
   blog_reads db_ex ''Sketchx2'' = Some 0 \<and>
   blog_reads (fst (get_blog db_ex \<lparr>get_blogId = ''Sketchx2'', get_draft = None, get_mode = None\<rparr>))
     ''Sketchx2'' = Some 1"
  using get_blog_draft_denied [of "\<lparr>get_blogId = ''Sketchx2'', get_draft = None, get_mode = None\<rparr>"
          db_ex sketch ann]
  by (simp add: ex_defs truthy_def blog_reads_def)

text \<open>
  Claim C10. In a get-blog call with a mode other than edit on a blog that resolves,
  the blog sent back carries the \<^verbatim>\<open>activity.total_reads\<close> of before the call, while
  the stored counter is one more: the view just recorded is not in the response.
\<close>

theorem get_blog_returns_old_reads:
  assumes "find (\<lambda>b. blog_id b = get_blogId rq) (Blog d) = Some b"
      and "get_mode rq \<noteq> Some ''edit''"
      and "snd (get_blog d rq) = Resp s (BlogDoc v)"
  shows "total_reads (activity (view_blog v)) = total_reads (activity b) \<and>
         blog_reads (fst (get_blog d rq)) (get_blogId rq) = Some (total_reads (activity b) + 1)"
proof -
  from assms(1,3) obtain a where a: "find (\<lambda>u. u_oid u = author b) (User d) = Some a"
    by (auto simp: get_blog_def findOneAndUpdate_def Let_def split: option.splits)
  from assms(1,3) a have "view_blog v = b"
    by (auto simp: get_blog_def findOneAndUpdate_def Let_def split: if_splits)
  moreover have "find (\<lambda>b. blog_id b = get_blogId rq)
             (updateFirst (\<lambda>b. blog_id b = get_blogId rq) (inc_total_reads 1) (Blog d))
           = Some (inc_total_reads 1 b)"
    by (rule find_updateFirst_same[OF assms(1) assms(1)]) (simp add: inc_total_reads_def)
  then have "blog_reads (fst (get_blog d rq)) (get_blogId rq) = Some (total_reads (activity b) + 1)"
    unfolding get_blog_db[OF assms(1) a] blog_reads_def
    using assms(2) by (simp add: inc_total_reads_def)
  ultimately show ?thesis by simp
qed

text \<open>The published blog of the small state is sent back with 4 reads and stored
  with 5.\<close>

theorem get_blog_returns_old_reads_witness:
  "snd (get_blog db_ex \<lparr>get_blogId = ''First-postx1'', get_draft = None, get_mode = None\<rparr>)
     = Resp 200 (BlogDoc \<lparr>view_blog = post, view_author = personal_info ann\<rparr>) \<and>
   total_reads (activity (view_blog \<lparr>view_blog = post, view_author = personal_info ann\<rparr>)) = 4 \<and>
   blog_reads (fst (get_blog db_ex \<lparr>get_blogId = ''First-postx1'', get_draft = None, get_mode = None\<rparr>))
     ''First-postx1'' = Some 5"
proof -
  have r: "snd (get_blog db_ex \<lparr>get_blogId = ''First-postx1'', get_draft = None, get_mode = None\<rparr>)
     = Resp 200 (BlogDoc \<lparr>view_blog = post, view_author = personal_info ann\<rparr>)"
    by (simp add: get_blog_def findOneAndUpdate_def Let_def ex_defs)
  have f: "find (\<lambda>b. blog_id b = get_blogId \<lparr>get_blogId = ''First-postx1'', get_draft = None, get_mode = None\<rparr>)
             (Blog db_ex) = Some post"
    by (simp add: ex_defs)
  show ?thesis
    using get_blog_returns_old_reads [OF f _ r] r by (simp add: post_def)
qed

section \<open>The author's post counter\<close>

lemma update_existing_users: "User (fst (update_existing d rq tgs bid)) = User d"
  by (simp add: update_existing_def)

lemma save_new_counts:
  assumes "find (\<lambda>u. u_oid u = a) (User d) = Some u"
      and "find (\<lambda>b. blog_id b = bid) (Blog d) = None"
  shows "user_total_posts (fst (save_new d a rq e tgs bid)) a =
           Some (total_posts (account_info u) + (if truthy (req_draft rq) then 0 else 1)) \<and>
         published_count (fst (save_new d a rq e tgs bid)) a =
           published_count d a + (if truthy (req_draft rq) then 0 else 1)"
proof -
  have "find (\<lambda>u. u_oid u = a)
          (updateFirst (\<lambda>u. u_oid u = a)
             (inc_posts_push_blog (if truthy (req_draft rq) then 0 else 1) (new_oid e)) (User d))
        = Some (inc_posts_push_blog (if truthy (req_draft rq) then 0 else 1) (new_oid e) u)"
    using assms(1) by (simp add: find_updateFirst_keep inc_posts_push_blog_def)
  with assms(2) show ?thesis
    by (simp add: save_new_def Let_def user_total_posts_def published_count_def
          inc_posts_push_blog_def)
qed

text \<open>
  Claim C6. After any sequence of create and update operations an author's
  \<^verbatim>\<open>total_posts\<close> is the number of the author's blogs that are not drafts: a create adds
  1 exactly when the new blog is published, and the count stays right when the draft
  flag of a blog is changed by an update.

  The create path keeps the count (\<open>save_new_counts\<close>); the update path never
  touches the user collection (\<open>update_existing_users\<close>). The theorem lets the second
  user create a draft and then publish it through an update: both calls answer 200,
  the user owns one published blog, and \<^verbatim>\<open>total_posts\<close> is still 0.
\<close>

theorem update_leaves_total_posts:
  "user_total_posts (fst (create_blog db_ex 2 finished e20)) 2 = Some 0 \<and>
   published_count (fst (create_blog db_ex 2 finished e20)) 2 = 0 \<and>
   snd (create_blog db_ex 2 finished e20) = Resp 200 (Id ''Notesk9'') \<and>
   snd (create_blog (fst (create_blog db_ex 2 finished e20)) 2
          (finished\<lparr>req_draft := Some False, req_blogId := Some ''Notesk9''\<rparr>) e21)
     = Resp 200 (Id ''Notesk9'') \<and>
   user_total_posts (fst (create_blog (fst (create_blog db_ex 2 finished e20)) 2
          (finished\<lparr>req_draft := Some False, req_blogId := Some ''Notesk9''\<rparr>) e21)) 2 = Some 0 \<and>
   published_count (fst (create_blog (fst (create_blog db_ex 2 finished e20)) 2
          (finished\<lparr>req_draft := Some False, req_blogId := Some ''Notesk9''\<rparr>) e21)) 2 = 1"
  by (simp add: run_defs ex_defs)

end
